theory Spec2Isabelle
  imports Main "HOL-Library.Word"
begin

section \<open>The translation unit \<^verbatim>\<open>test_review/bad_cpp.cpp\<close>\<close>

text \<open>
  The file defines one global variable, \<^verbatim>\<open>int global_counter = 0;\<close>, and four free
  functions of type \<^verbatim>\<open>void\<close>. Each function is embedded as a HOL function from the
  program state before the call to an outcome. An outcome is either a normal return with
  the state after the call, or a fault: the point where the C++ abstract machine leaves
  defined behaviour (a write outside an array, a store through a null pointer, a read of
  a variable that holds no value, an \<^verbatim>\<open>int\<close> overflow), with the state reached so far.
\<close>

subsection \<open>Values\<close>

text \<open>
  \<^verbatim>\<open>char\<close> is one byte. \<^verbatim>\<open>int\<close> is taken as 32 bits wide in two's complement
  (\<open>sint\<close> reads the signed value), with \<^verbatim>\<open>sizeof(int)\<close> 4, as on the usual ILP32 and
  LP64 targets.
\<close>

type_synonym byte = "8 word"
type_synonym cint = "32 word"

definition INT_MAX :: int where
  "INT_MAX = 2147483647"

definition sizeof_int :: nat where
  "sizeof_int = 4"

subsection \<open>Program state and outcomes\<close>

text \<open>
  A heap block obtained from \<^verbatim>\<open>malloc\<close> and used through an \<^verbatim>\<open>int*\<close> is a list of
  cells; a cell that was never written holds \<open>None\<close>. The heap lists the blocks handed
  out so far, a block's index being its address; an entry \<open>None\<close> is a block that has
  been released. \<open>avail\<close> is the number of bytes the allocator can still hand out:
  \<^verbatim>\<open>malloc\<close> fails when the request is larger. \<open>stdout\<close> is the text printed so far.
\<close>

type_synonym block = "cint option list"

record state =
  global_counter :: cint
  heap :: "block option list"
  avail :: nat
  stdout :: string

datatype fault =
    BufferOverflow nat  \<comment> \<open>write at this index, outside the destination array\<close>
  | ReadOverrun         \<comment> \<open>read past the end of the source array\<close>
  | NullDeref           \<comment> \<open>access through a null pointer\<close>
  | InvalidAccess       \<comment> \<open>access outside a live heap block\<close>
  | UninitRead string   \<comment> \<open>read of the named variable before any assignment\<close>
  | SignedOverflow      \<comment> \<open>\<^verbatim>\<open>int\<close> arithmetic leaving the range of the type\<close>

datatype outcome = Return state | UB fault state

fun returns :: "outcome \<Rightarrow> bool" where
  "returns (Return s) = True"
| "returns (UB f s) = False"

fun final_state :: "outcome \<Rightarrow> state" where
  "final_state (Return s) = s"
| "final_state (UB f s) = s"

subsection \<open>Library functions the file calls\<close>

text \<open>
  \<^verbatim>\<open>strcpy(dst, src)\<close> copies the bytes at \<^verbatim>\<open>src\<close> up to and including the first
  NUL into \<^verbatim>\<open>dst\<close>, as the loop \<^verbatim>\<open>while ((*d++ = *s++) != 0);\<close> does. The destination
  is the array \<open>dst\<close> with the next index to write, the source is the list of bytes
  from the source pointer to the end of its array. Each round reads one byte (a fault when
  the source array has ended with no NUL), writes it (a fault when the index is outside
  the destination), and stops after writing a NUL.
\<close>

fun strcpy :: "byte option list \<Rightarrow> nat \<Rightarrow> byte list \<Rightarrow> fault + byte option list" where
  "strcpy dst i [] = Inl ReadOverrun"
| "strcpy dst i (c # cs) =
     (if length dst \<le> i then Inl (BufferOverflow i)
      else if c = 0 then Inr (dst[i := Some c])
      else strcpy (dst[i := Some c]) (Suc i) cs)"

text \<open>The length of the string at a pointer: the bytes before the first NUL.\<close>

definition strlen :: "byte list \<Rightarrow> nat" where
  "strlen bytes = length (takeWhile (\<lambda>c. c \<noteq> 0) bytes)"

text \<open>
  A \<^verbatim>\<open>char*\<close> argument is null or points to an array of bytes, given from the pointer
  on. An \<^verbatim>\<open>int*\<close> into the heap is null or the address of a block.
\<close>

datatype char_ptr = NullStr | Str "byte list"

datatype int_ptr = Null | Ptr nat

text \<open>
  \<^verbatim>\<open>malloc(n)\<close> returns a null pointer and changes nothing when \<open>n\<close> bytes are not
  available, and otherwise the address of a new block whose cells hold no value yet.
\<close>

definition malloc :: "nat \<Rightarrow> state \<Rightarrow> int_ptr \<times> state" where
  "malloc n s =
     (if n \<le> avail s
      then (Ptr (length (heap s)),
            s\<lparr>heap := heap s @ [Some (replicate (n div sizeof_int) None)],
              avail := avail s - n\<rparr>)
      else (Null, s))"

text \<open>The assignment \<^verbatim>\<open>p[i] = v\<close> through an \<^verbatim>\<open>int*\<close>.\<close>

definition store_int :: "int_ptr \<Rightarrow> nat \<Rightarrow> cint \<Rightarrow> state \<Rightarrow> outcome" where
  "store_int p i v s =
     (case p of
        Null \<Rightarrow> UB NullDeref s
      | Ptr b \<Rightarrow>
          if b < length (heap s) then
            (case heap s ! b of
               None \<Rightarrow> UB InvalidAccess s
             | Some cells \<Rightarrow>
                 if i < length cells
                 then Return (s\<lparr>heap := (heap s)[b := Some (cells[i := Some v])]\<rparr>)
                 else UB InvalidAccess s)
          else UB InvalidAccess s)"

definition printf :: "string \<Rightarrow> state \<Rightarrow> state" where
  "printf msg s = s\<lparr>stdout := stdout s @ msg\<rparr>"

subsection \<open>The four functions\<close>

text \<open>
  \<^verbatim>\<open>void process_string(char* input) { char buffer[10]; strcpy(buffer, input); }\<close>

  The buffer is a local array of 10 bytes that hold no value at entry; it is gone at the
  return, so a call that returns leaves the state as it was.
\<close>

definition process_string :: "char_ptr \<Rightarrow> state \<Rightarrow> outcome" where
  "process_string input s =
     (let buffer = replicate 10 None in
      case input of
        NullStr \<Rightarrow> UB NullDeref s
      | Str bytes \<Rightarrow>
          (case strcpy buffer 0 bytes of
             Inl f \<Rightarrow> UB f s
           | Inr buffer' \<Rightarrow> Return s))"

text \<open>
  \<^verbatim>\<open>void memory_issue() { int* ptr = (int*)malloc(100 * sizeof(int)); ptr[0] = 10; }\<close>
\<close>

definition memory_issue :: "state \<Rightarrow> outcome" where
  "memory_issue s =
     (let (ptr, s1) = malloc (100 * sizeof_int) s
      in store_int ptr 0 10 s1)"

text \<open>
  \<^verbatim>\<open>void race_condition() { global_counter++; }\<close>

  The increment reads the counter and writes back the value plus one; the sum of an
  \<^verbatim>\<open>int\<close> that is \<^verbatim>\<open>INT_MAX\<close> and 1 is outside the type.
\<close>

definition race_condition :: "state \<Rightarrow> outcome" where
  "race_condition s =
     (let v = global_counter s in
      if sint v = INT_MAX then UB SignedOverflow s
      else Return (s\<lparr>global_counter := v + 1\<rparr>))"

text \<open>
  \<^verbatim>\<open>void BAD_FUNCTION_NAME() { int timeout = 3600; int x;
       if (x > 0) { printf("Undefined behavior"); } }\<close>

  The local variables are a frame from names to values: a declared variable with no
  initialiser maps to \<open>None\<close> until it is assigned.
\<close>

type_synonym frame = "string \<rightharpoonup> cint option"

definition read_local :: "frame \<Rightarrow> string \<Rightarrow> cint option" where
  "read_local fr v = (case fr v of Some (Some n) \<Rightarrow> Some n | _ \<Rightarrow> None)"

definition BAD_FUNCTION_NAME :: "state \<Rightarrow> outcome" where
  "BAD_FUNCTION_NAME s =
     (let fr = [''timeout'' \<mapsto> Some 3600, ''x'' \<mapsto> None] in
      case read_local fr ''x'' of
        None \<Rightarrow> UB (UninitRead ''x'') s
      | Some x \<Rightarrow>
          if 0 < sint x then Return (printf ''Undefined behavior'' s)
          else Return s)"


text \<open>
  The state in which the program starts: the initialiser of \<^verbatim>\<open>global_counter\<close> is 0,
  nothing is allocated, nothing is printed; \<open>m\<close> bytes are available to the allocator.
\<close>

definition initial_state :: "nat \<Rightarrow> state" where
  "initial_state m = \<lparr>global_counter = 0, heap = [], avail = m, stdout = []\<rparr>"

section \<open>Properties\<close>

subsection \<open>The copy loop\<close>

text \<open>
  A source that still holds at least as many bytes before its NUL as the destination has
  room for, and one byte more to read, makes the loop write at the index one past the end
  of the destination.
\<close>

lemma strcpy_overflow:
  "i \<le> length dst \<Longrightarrow> length dst \<le> i + strlen bytes \<Longrightarrow> length dst < i + length bytes \<Longrightarrow>
   strcpy dst i bytes = Inl (BufferOverflow (length dst))"
proof (induction bytes arbitrary: dst i)
  case Nil
  then show ?case by simp
next
  case (Cons c cs)
  show ?case
  proof (cases "length dst \<le> i")
    case True
    with Cons.prems show ?thesis by simp
  next
    case False
    with Cons.prems have nz: "c \<noteq> 0"
      by (auto simp: strlen_def split: if_splits)
    from False Cons.prems nz have "strcpy (dst[i := Some c]) (Suc i) cs =
        Inl (BufferOverflow (length (dst[i := Some c])))"
      by (intro Cons.IH) (auto simp: strlen_def)
    with False nz show ?thesis by simp
  qed
qed

text \<open>
  A NUL-terminated source that fits is copied, NUL included, to the indices from \<open>i\<close>
  on; the rest of the destination is as before.
\<close>

lemma strcpy_fits:
  "0 \<in> set bytes \<Longrightarrow> i + strlen bytes < length dst \<Longrightarrow>
   strcpy dst i bytes =
     Inr (take i dst @ map Some (takeWhile (\<lambda>c. c \<noteq> 0) bytes @ [0])
          @ drop (Suc (i + strlen bytes)) dst)"
proof (induction bytes arbitrary: dst i)
  case Nil
  then show ?case by simp
next
  case (Cons c cs)
  from Cons.prems have lt: "i < length dst" by simp
  show ?case
  proof (cases "c = 0")
    case True
    with lt show ?thesis
      by (simp add: strlen_def upd_conv_take_nth_drop)
  next
    case False
    with Cons.prems have "strcpy (dst[i := Some c]) (Suc i) cs =
        Inr (take (Suc i) (dst[i := Some c]) @ map Some (takeWhile (\<lambda>c. c \<noteq> 0) cs @ [0])
          @ drop (Suc (Suc i + strlen cs)) (dst[i := Some c]))"
      by (intro Cons.IH) (auto simp: strlen_def)
    with False lt show ?thesis
      by (simp add: strlen_def take_Suc_conv_app_nth)
  qed
qed

lemma strlen_terminated: "0 \<in> set bytes \<Longrightarrow> strlen bytes < length bytes"
  unfolding strlen_def by (induction bytes) auto


subsection \<open>The allocation\<close>

lemma memory_issue_success:
  assumes "100 * sizeof_int \<le> avail s"
  shows "memory_issue s =
    Return (s\<lparr>heap := heap s @ [Some (Some 10 # replicate 99 None)],
             avail := avail s - 100 * sizeof_int\<rparr>)"
proof -
  have "replicate 100 (None :: cint option) = None # replicate 99 None"
    by (simp add: numeral_eq_Suc)
  with assms show ?thesis
    by (simp add: memory_issue_def malloc_def store_int_def sizeof_int_def)
qed


subsection \<open>The increment\<close>

lemma sint_incr:
  assumes "sint (v :: cint) \<noteq> INT_MAX"
  shows "sint (v + 1) = sint v + 1"
proof -
  have "sint v \<le> 2147483647" using sint_lt [of v] by simp
  moreover have "- 2147483648 \<le> sint v" using sint_ge [of v] by simp
  ultimately have "- (2 ^ 31) \<le> sint v + 1" "sint v + 1 < 2 ^ 31"
    using assms by (simp_all add: INT_MAX_def)
  then have "signed_take_bit (31::nat) (sint v + 1) = sint v + 1"
    by (rule signed_take_bit_int_eq_self)
  then show ?thesis by (simp add: sint_word_ariths)
qed



section \<open>The claims\<close>

subsection \<open>\<^verbatim>\<open>process_string\<close>\<close>

text \<open>
  Claim C1: \<^verbatim>\<open>process_string\<close> copies its NUL-terminated input into a local buffer of
  10 bytes with no length check. For every input whose length, counting the terminating
  NUL, is more than 10 bytes, the copy writes outside the buffer: the first such write is
  at index 10, one past the end. No input of that length is turned away before the copy.
\<close>

theorem process_string_overflow:
  assumes "0 \<in> set bytes" and "10 < strlen bytes + 1"
  shows "strcpy (replicate 10 None) 0 bytes = Inl (BufferOverflow 10) \<and>
         process_string (Str bytes) s = UB (BufferOverflow 10) s"
proof -
  from assms have "strcpy (replicate 10 None) 0 bytes =
      Inl (BufferOverflow (length (replicate 10 (None :: byte option))))"
    using strlen_terminated [of bytes] by (intro strcpy_overflow) simp_all
  then show ?thesis by (simp add: process_string_def)
qed

text \<open>The input \<^verbatim>\<open>"0123456789"\<close>: ten characters and the NUL.\<close>

theorem process_string_overflow_witness:
  "0 \<in> set [48, 49, 50, 51, 52, 53, 54, 55, 56, 57, 0 :: byte] \<and>
   10 < strlen [48, 49, 50, 51, 52, 53, 54, 55, 56, 57, 0 :: byte] + 1 \<and>
   strcpy (replicate 10 None) 0 [48, 49, 50, 51, 52, 53, 54, 55, 56, 57, 0 :: byte] =
     Inl (BufferOverflow 10) \<and>
   process_string (Str [48, 49, 50, 51, 52, 53, 54, 55, 56, 57, 0]) (initial_state 0) =
     UB (BufferOverflow 10) (initial_state 0)"
  using process_string_overflow
    [of "[48, 49, 50, 51, 52, 53, 54, 55, 56, 57, 0]" "initial_state 0"]
  by (simp add: strlen_def)

text \<open>
  Claim C9: for every input string whose length, counting the terminating NUL, is at most
  10 bytes (up to 9 characters), the copy stays inside the buffer: it writes the
  characters and the NUL to the first indices and nothing else, and the call returns with
  the state outside the function as it was.
\<close>

theorem process_string_fits:
  assumes "0 \<in> set bytes" and "strlen bytes + 1 \<le> 10"
  shows "strcpy (replicate 10 None) 0 bytes =
           Inr (map Some (takeWhile (\<lambda>c. c \<noteq> 0) bytes @ [0])
                @ replicate (10 - (strlen bytes + 1)) None) \<and>
         process_string (Str bytes) s = Return s"
  using strcpy_fits [of bytes 0 "replicate 10 None"] assms
  by (simp add: process_string_def)

text \<open>The input \<^verbatim>\<open>"012345678"\<close>: nine characters and the NUL fill the buffer.\<close>

theorem process_string_fits_witness:
  "0 \<in> set [48, 49, 50, 51, 52, 53, 54, 55, 56, 0 :: byte] \<and>
   strlen [48, 49, 50, 51, 52, 53, 54, 55, 56, 0 :: byte] + 1 \<le> 10 \<and>
   strcpy (replicate 10 None) 0 [48, 49, 50, 51, 52, 53, 54, 55, 56, 0 :: byte] =
     Inr [Some 48, Some 49, Some 50, Some 51, Some 52, Some 53, Some 54, Some 55, Some 56,
          Some 0] \<and>
   process_string (Str [48, 49, 50, 51, 52, 53, 54, 55, 56, 0]) (initial_state 0) =
     Return (initial_state 0)"
  using process_string_fits
    [of "[48, 49, 50, 51, 52, 53, 54, 55, 56, 0]" "initial_state 0"]
  by (simp add: strlen_def)

subsection \<open>\<^verbatim>\<open>BAD_FUNCTION_NAME\<close>\<close>

text \<open>
  Claim C2: \<^verbatim>\<open>BAD_FUNCTION_NAME\<close> reads its local variable \<^verbatim>\<open>x\<close>, in the condition
  \<^verbatim>\<open>x > 0\<close>, before any value has been assigned to it, on every call: whatever the
  state at entry, the first access to \<^verbatim>\<open>x\<close> is that read, and \<^verbatim>\<open>x\<close> holds no value.
\<close>

theorem BAD_FUNCTION_NAME_uninit_read:
  "BAD_FUNCTION_NAME s = UB (UninitRead ''x'') s"
  unfolding BAD_FUNCTION_NAME_def read_local_def by simp

theorem BAD_FUNCTION_NAME_uninit_read_witness:
  "BAD_FUNCTION_NAME (initial_state 0) = UB (UninitRead ''x'') (initial_state 0)"
  using BAD_FUNCTION_NAME_uninit_read [of "initial_state 0"] by simp

subsection \<open>\<^verbatim>\<open>memory_issue\<close>\<close>

text \<open>
  Claim C4: \<^verbatim>\<open>memory_issue\<close> does not check whether the allocation failed. The store
  \<^verbatim>\<open>ptr[0] = 10\<close> is applied to whatever \<^verbatim>\<open>malloc\<close> returned, so when the allocation
  fails \<^verbatim>\<open>malloc\<close> returns a null pointer and the function stores through it.
\<close>

theorem memory_issue_null_store:
  assumes "avail s < 100 * sizeof_int"
  shows "memory_issue s =
           store_int (fst (malloc (100 * sizeof_int) s)) 0 10 (snd (malloc (100 * sizeof_int) s)) \<and>
         malloc (100 * sizeof_int) s = (Null, s) \<and>
         memory_issue s = UB NullDeref s"
  using assms by (simp add: memory_issue_def malloc_def store_int_def)

theorem memory_issue_null_store_witness:
  "avail (initial_state 399) < 100 * sizeof_int \<and>
   malloc (100 * sizeof_int) (initial_state 399) = (Null, initial_state 399) \<and>
   memory_issue (initial_state 399) = UB NullDeref (initial_state 399)"
proof -
  have h: "avail (initial_state 399) < 100 * sizeof_int"
    by (simp add: initial_state_def sizeof_int_def)
  show ?thesis using h memory_issue_null_store [OF h] by blast
qed

text \<open>
  Claim C5: \<^verbatim>\<open>memory_issue\<close> allocates a block of \<^verbatim>\<open>100 * sizeof(int)\<close> bytes and never
  releases it. On every call in which the allocation succeeds the function returns, the
  heap at the return is the heap at entry with one block more, that block is live and has
  100 cells, and its bytes are still taken from the allocator.
\<close>

theorem memory_issue_leaks:
  assumes "100 * sizeof_int \<le> avail s"
  shows "\<exists>s' blk. memory_issue s = Return s' \<and>
           length (heap s') = Suc (length (heap s)) \<and>
           take (length (heap s)) (heap s') = heap s \<and>
           heap s' ! length (heap s) = Some blk \<and> length blk = 100 \<and>
           avail s' = avail s - 100 * sizeof_int"
  using memory_issue_success [OF assms] by simp

theorem memory_issue_leaks_witness:
  "100 * sizeof_int \<le> avail (initial_state 400) \<and>
   (\<exists>s' blk. memory_issue (initial_state 400) = Return s' \<and>
      length (heap s') = Suc (length (heap (initial_state 400))) \<and>
      take (length (heap (initial_state 400))) (heap s') = heap (initial_state 400) \<and>
      heap s' ! length (heap (initial_state 400)) = Some blk \<and> length blk = 100 \<and>
      avail s' = avail (initial_state 400) - 100 * sizeof_int)"
proof -
  have h: "100 * sizeof_int \<le> avail (initial_state 400)"
    by (simp add: initial_state_def sizeof_int_def)
  show ?thesis using h memory_issue_leaks [OF h] by simp
qed

text \<open>
  Claim C10: whenever the allocation in \<^verbatim>\<open>memory_issue\<close> succeeds, the function stores
  the value 10 at index 0 of the new array of 100 ints and writes no other element of it:
  the other 99 cells still hold no value at the return. The blocks that were on the heap
  before are as they were.
\<close>

theorem memory_issue_stores_10:
  assumes "100 * sizeof_int \<le> avail s"
  shows "returns (memory_issue s) \<and>
         heap (final_state (memory_issue s)) ! length (heap s) =
           Some (Some 10 # replicate 99 None) \<and>
         take (length (heap s)) (heap (final_state (memory_issue s))) = heap s"
  using memory_issue_success [OF assms] by simp

theorem memory_issue_stores_10_witness:
  "100 * sizeof_int \<le> avail (initial_state 4096) \<and>
   returns (memory_issue (initial_state 4096)) \<and>
   heap (final_state (memory_issue (initial_state 4096))) ! 0 =
     Some (Some 10 # replicate 99 None)"
proof -
  have h: "100 * sizeof_int \<le> avail (initial_state 4096)"
    by (simp add: initial_state_def sizeof_int_def)
  have "heap (initial_state 4096) = []"
    by (simp add: initial_state_def)
  with h memory_issue_stores_10 [OF h] show ?thesis by simp
qed

subsection \<open>\<^verbatim>\<open>race_condition\<close>\<close>

text \<open>
  Claim C6, as the spec has it: in a sequential execution, for every starting value
  \<open>v\<close> of \<^verbatim>\<open>global_counter\<close>, after one call to \<^verbatim>\<open>race_condition\<close> the counter is
  \<open>v + 1\<close>. This fails at the largest \<^verbatim>\<open>int\<close>: the increment of 2147483647
  overflows the type, the call does not return with a counter of 2147483648, and the
  32-bit sum is not \<open>v + 1\<close> either.
\<close>

theorem race_condition_INT_MAX_counterexample:
  "race_condition \<lparr>global_counter = 2147483647, heap = [], avail = 0, stdout = []\<rparr> =
     UB SignedOverflow \<lparr>global_counter = 2147483647, heap = [], avail = 0, stdout = []\<rparr> \<and>
   sint (2147483647 + 1 :: cint) = - 2147483648"
  by (simp add: race_condition_def INT_MAX_def)

text \<open>
  Claim C6, amended: in a sequential execution, for every starting value \<open>v\<close> of
  \<^verbatim>\<open>global_counter\<close> below \<^verbatim>\<open>INT_MAX\<close>, one call to \<^verbatim>\<open>race_condition\<close> returns with
  the counter at \<open>v + 1\<close> and every other part of the state as it was.
\<close>

theorem race_condition_increments:
  assumes "sint (global_counter s) < INT_MAX"
  shows "race_condition s = Return (s\<lparr>global_counter := global_counter s + 1\<rparr>) \<and>
         sint (global_counter s + 1) = sint (global_counter s) + 1"
  using assms sint_incr [of "global_counter s"] by (simp add: race_condition_def)

theorem race_condition_increments_witness:
  "sint (global_counter (initial_state 0)) < INT_MAX \<and>
   race_condition (initial_state 0) = Return ((initial_state 0)\<lparr>global_counter := 1\<rparr>) \<and>
   sint (global_counter (initial_state 0) + 1) = 1"
proof -
  have h: "sint (global_counter (initial_state 0)) < INT_MAX"
    by (simp add: initial_state_def INT_MAX_def)
  show ?thesis using h race_condition_increments [OF h] by (simp add: initial_state_def)
qed

subsection \<open>The global counter and the other three functions\<close>



end
